theory Spec2Isabelle
  imports Main
begin

section \<open>Data model of the \<open>menus\<close> namespace\<close>

text \<open>
  The entities of \<^verbatim>\<open>packages/teams-js/src/private/menus.ts\<close>. Field names follow the
  source; \<open>id\<close>, \<open>title\<close> and \<open>contentDescription\<close> occur in several entities and
  carry a prefix here (\<open>mi_\<close>, \<open>vc_\<close>, \<open>am_\<close>). An optional field (\<^verbatim>\<open>?:\<close>) is an
  \<open>option\<close>.
\<close>

datatype MenuListType = dropDown | popOver

text \<open>
  \<^verbatim>\<open>class MenuItem\<close> and \<^verbatim>\<open>interface ViewData\<close> refer to each other: an item owns the
  view data shown on its selection, whose \<^verbatim>\<open>listItems\<close> are items again.
\<close>

datatype MenuItem =
  MenuItem
    (mi_id: string)
    (mi_title: string)
    (icon: string)
    (iconSelected: "string option")
    (mi_contentDescription: "string option")
    (enabled: bool)
    (viewData: ViewData)
    (selected: bool)
and ViewData =
  ViewData
    (listTitle: "string option")
    (listType: MenuListType)
    (listItems: "MenuItem list")

record ViewConfiguration =
  vc_id :: string
  vc_title :: string
  vc_contentDescription :: "string option"

record ActionMenuParameters =
  am_title :: string
  am_items :: "MenuItem list"

section \<open>The bridge, the session guard and the capability registry\<close>

text \<open>
  An outbound command is a name and a list of positional arguments. The four shapes of
  argument that \<^verbatim>\<open>menus.ts\<close> passes are the constructors of \<open>arg\<close>.
\<close>

datatype arg =
  ViewConfigurationsArg "ViewConfiguration list"
| MenuItemsArg "MenuItem list"
| ActionMenuParametersArg ActionMenuParameters
| IdArg string

record message =
  command :: string
  args :: "arg list"

text \<open>
  A selection handler has the TypeScript type \<^verbatim>\<open>(id: string) => boolean\<close>. It is code of
  the guest application: it returns a boolean or throws, and on the way it may change the
  guest's own state, of type \<open>'w\<close>. A handler does not call back into the \<open>menus\<close>
  namespace in this model.
\<close>

datatype handler_result = Returns bool | Throws string

type_synonym 'w handler = "string \<Rightarrow> 'w \<Rightarrow> handler_result \<times> 'w"

datatype error = NotInitialized | HandlerFault string

text \<open>
  The state that the functions of \<^verbatim>\<open>menus.ts\<close> read and write:
  \<^item> \<open>initialized\<close>: the flag behind \<^verbatim>\<open>ensureInitialized\<close>;
  \<^item> \<open>runtime\<close>: the capability registry, \<open>None\<close> until the handshake populates it, then
    the table of the host's feature flags;
  \<^item> the three module-level \<^verbatim>\<open>let\<close> variables, declared without an initialiser and so
    \<^verbatim>\<open>undefined\<close> (\<open>None\<close>) at module load;
  \<^item> \<open>outbox\<close>: the commands handed to \<^verbatim>\<open>sendMessageToParent\<close> so far, oldest first;
  \<^item> \<open>guest\<close>: the guest application's own state, which only handlers touch.
\<close>

record 'w menus_state =
  initialized :: bool
  runtime :: "(string \<rightharpoonup> bool) option"
  navBarMenuItemPressHandler :: "'w handler option"
  actionMenuItemPressHandler :: "'w handler option"
  viewConfigItemPressHandler :: "'w handler option"
  outbox :: "message list"
  guest :: 'w

definition module_load :: "'w \<Rightarrow> 'w menus_state" where
  "module_load w =
     \<lparr>initialized = False, runtime = None,
      navBarMenuItemPressHandler = None,
      actionMenuItemPressHandler = None,
      viewConfigItemPressHandler = None,
      outbox = [], guest = w\<rparr>"

text \<open>
  A function of the namespace takes the state and returns its result, or the error it
  throws, with the state it leaves behind. JavaScript does not roll back on a throw, so
  the state at the point of the throw is the one returned.
\<close>

type_synonym ('w, 'a) action = "'w menus_state \<Rightarrow> (error + 'a) \<times> 'w menus_state"

definition returns :: "'a \<Rightarrow> ('w, 'a) action" where
  "returns x s = (Inr x, s)"

text \<open>
  Statement sequencing. There is no \<^verbatim>\<open>try\<close> in \<^verbatim>\<open>menus.ts\<close>: when a statement throws,
  the rest of the function body is skipped and the error reaches the caller.
\<close>

definition andThen :: "('w, 'a) action \<Rightarrow> ('a \<Rightarrow> ('w, 'b) action) \<Rightarrow> ('w, 'b) action" where
  "andThen m f s = (case m s of (Inl e, s1) \<Rightarrow> (Inl e, s1) | (Inr x, s1) \<Rightarrow> f x s1)"

text \<open>
  Modelled from the spec: \<^verbatim>\<open>ensureInitialized\<close> of \<^verbatim>\<open>internal/internalAPIs\<close> is not among
  the sources. The Session Guard ``exposes a single operation that fails fast if the
  bridge handshake has not completed''.
\<close>

definition ensureInitialized :: "('w, unit) action" where
  "ensureInitialized s = (if initialized s then Inr () else Inl NotInitialized, s)"

text \<open>
  Modelled from the spec: \<^verbatim>\<open>sendMessageToParent\<close> of \<^verbatim>\<open>internal/communication\<close> is not
  among the sources. The Bridge Primitive is an opaque \<^verbatim>\<open>send(command, args)\<close>, a
  ``fire-and-forget command''; the model records the command in the outbox.
\<close>

definition sendMessageToParent :: "string \<Rightarrow> arg list \<Rightarrow> ('w, unit) action" where
  "sendMessageToParent name as s =
     (Inr (), s\<lparr>outbox := outbox s @ [\<lparr>command = name, args = as\<rparr>]\<rparr>)"

text \<open>
  Modelled from the spec: \<^verbatim>\<open>runtime\<close> of \<^verbatim>\<open>public/runtime\<close> is not among the sources.
  The Capability Registry is a ``table of host-declared feature flags'' with ``a boolean
  named feature flag for "menus"''. \<open>supports_menus\<close> is the value that the expression
  \<^verbatim>\<open>runtime.supports.menus\<close> reads: \<open>None\<close> (\<^verbatim>\<open>undefined\<close>) while the registry is not
  populated or when the host declared no such flag.
\<close>

definition supports_menus :: "'w menus_state \<Rightarrow> bool option" where
  "supports_menus s = (case runtime s of None \<Rightarrow> None | Some flags \<Rightarrow> flags ''menus'')"

section \<open>Define/show operations\<close>

text \<open>
  \<^verbatim>\<open>
  export function setUpViews(viewConfig: ViewConfiguration[], handler: (id: string) => boolean): void {
    ensureInitialized();
    viewConfigItemPressHandler = handler;
    sendMessageToParent('setUpViews', [viewConfig]);
  }
  \<close>
  and the same three statements in \<^verbatim>\<open>setNavBarMenu\<close> and \<^verbatim>\<open>showActionMenu\<close>.
\<close>

definition setUpViews :: "ViewConfiguration list \<Rightarrow> 'w handler \<Rightarrow> ('w, unit) action" where
  "setUpViews viewConfig handler =
     andThen ensureInitialized (\<lambda>_.
     andThen (\<lambda>s. returns () (s\<lparr>viewConfigItemPressHandler := Some handler\<rparr>)) (\<lambda>_.
     sendMessageToParent ''setUpViews'' [ViewConfigurationsArg viewConfig]))"

definition setNavBarMenu :: "MenuItem list \<Rightarrow> 'w handler \<Rightarrow> ('w, unit) action" where
  "setNavBarMenu items handler =
     andThen ensureInitialized (\<lambda>_.
     andThen (\<lambda>s. returns () (s\<lparr>navBarMenuItemPressHandler := Some handler\<rparr>)) (\<lambda>_.
     sendMessageToParent ''setNavBarMenu'' [MenuItemsArg items]))"

definition showActionMenu :: "ActionMenuParameters \<Rightarrow> 'w handler \<Rightarrow> ('w, unit) action" where
  "showActionMenu params handler =
     andThen ensureInitialized (\<lambda>_.
     andThen (\<lambda>s. returns () (s\<lparr>actionMenuItemPressHandler := Some handler\<rparr>)) (\<lambda>_.
     sendMessageToParent ''showActionMenu'' [ActionMenuParametersArg params]))"

section \<open>Selection dispatch\<close>

text \<open>
  The condition \<^verbatim>\<open>!handler || !handler(id)\<close> of the three dispatch functions: true when
  the slot is empty, without a call; otherwise the handler is called once and the
  condition is the negation of what it returns. A handler that throws ends the
  evaluation with its error.
\<close>

definition declines :: "'w handler option \<Rightarrow> string \<Rightarrow> ('w, bool) action" where
  "declines h ident s =
     (case h of
        None \<Rightarrow> (Inr True, s)
      | Some f \<Rightarrow>
          (case f ident (guest s) of
             (Returns b, w) \<Rightarrow> (Inr (\<not> b), s\<lparr>guest := w\<rparr>)
           | (Throws e, w) \<Rightarrow> (Inl (HandlerFault e), s\<lparr>guest := w\<rparr>)))"

text \<open>
  \<^verbatim>\<open>
  function handleNavBarMenuItemPress(id: string): void {
    if (!navBarMenuItemPressHandler || !navBarMenuItemPressHandler(id)) {
      ensureInitialized();
      sendMessageToParent('handleNavBarMenuItemPress', [id]);
    }
  }
  \<close>
  The other two differ in the slot and in the command name:
  \<^verbatim>\<open>'viewConfigItemPress'\<close> and \<^verbatim>\<open>'handleActionMenuItemPress'\<close>.
\<close>

definition handleViewConfigItemPress :: "string \<Rightarrow> ('w, unit) action" where
  "handleViewConfigItemPress ident s =
     andThen (declines (viewConfigItemPressHandler s) ident) (\<lambda>unhandled.
       if unhandled
       then andThen ensureInitialized (\<lambda>_.
            sendMessageToParent ''viewConfigItemPress'' [IdArg ident])
       else returns ()) s"

definition handleNavBarMenuItemPress :: "string \<Rightarrow> ('w, unit) action" where
  "handleNavBarMenuItemPress ident s =
     andThen (declines (navBarMenuItemPressHandler s) ident) (\<lambda>unhandled.
       if unhandled
       then andThen ensureInitialized (\<lambda>_.
            sendMessageToParent ''handleNavBarMenuItemPress'' [IdArg ident])
       else returns ()) s"

definition handleActionMenuItemPress :: "string \<Rightarrow> ('w, unit) action" where
  "handleActionMenuItemPress ident s =
     andThen (declines (actionMenuItemPressHandler s) ident) (\<lambda>unhandled.
       if unhandled
       then andThen ensureInitialized (\<lambda>_.
            sendMessageToParent ''handleActionMenuItemPress'' [IdArg ident])
       else returns ()) s"

section \<open>Capability query\<close>

text \<open>
  \<^verbatim>\<open>return runtime.supports.menus ? true : false;\<close> The conditional maps \<^verbatim>\<open>undefined\<close>
  and \<^verbatim>\<open>false\<close> to \<^verbatim>\<open>false\<close>.
\<close>

definition isSupported :: "('w, bool) action" where
  "isSupported s =
     returns (case supports_menus s of None \<Rightarrow> False | Some b \<Rightarrow> b) s"

section \<open>Channels\<close>

text \<open>
  The namespace has three channels. Each has its slot variable, its dispatch function
  (the one that \<^verbatim>\<open>initialize\<close> registers for the channel's inbound command) and the
  command name that its dispatch function sends as the fallback.
\<close>

datatype channel = NavBar | ActionMenu | ViewConfig

fun slot :: "channel \<Rightarrow> 'w menus_state \<Rightarrow> 'w handler option" where
  "slot NavBar s = navBarMenuItemPressHandler s"
| "slot ActionMenu s = actionMenuItemPressHandler s"
| "slot ViewConfig s = viewConfigItemPressHandler s"

fun dispatch :: "channel \<Rightarrow> string \<Rightarrow> ('w, unit) action" where
  "dispatch NavBar = handleNavBarMenuItemPress"
| "dispatch ActionMenu = handleActionMenuItemPress"
| "dispatch ViewConfig = handleViewConfigItemPress"

fun fallback_command :: "channel \<Rightarrow> string" where
  "fallback_command NavBar = ''handleNavBarMenuItemPress''"
| "fallback_command ActionMenu = ''handleActionMenuItemPress''"
| "fallback_command ViewConfig = ''viewConfigItemPress''"

text \<open>
  A call of one of the three define/show operations, with the channel whose slot the
  operation assigns and the handler it is given.
\<close>

datatype 'w define_call =
  SetUpViews "ViewConfiguration list" "'w handler"
| SetNavBarMenu "MenuItem list" "'w handler"
| ShowActionMenu ActionMenuParameters "'w handler"

fun perform :: "'w define_call \<Rightarrow> ('w, unit) action" where
  "perform (SetUpViews viewConfig handler) = setUpViews viewConfig handler"
| "perform (SetNavBarMenu items handler) = setNavBarMenu items handler"
| "perform (ShowActionMenu params handler) = showActionMenu params handler"

fun call_channel :: "'w define_call \<Rightarrow> channel" where
  "call_channel (SetUpViews viewConfig handler) = ViewConfig"
| "call_channel (SetNavBarMenu items handler) = NavBar"
| "call_channel (ShowActionMenu params handler) = ActionMenu"

fun call_handler :: "'w define_call \<Rightarrow> 'w handler" where
  "call_handler (SetUpViews viewConfig handler) = handler"
| "call_handler (SetNavBarMenu items handler) = handler"
| "call_handler (ShowActionMenu params handler) = handler"

text \<open>The command that the operation hands to \<^verbatim>\<open>sendMessageToParent\<close>.\<close>

fun call_message :: "'w define_call \<Rightarrow> message" where
  "call_message (SetUpViews viewConfig handler) =
     \<lparr>command = ''setUpViews'', args = [ViewConfigurationsArg viewConfig]\<rparr>"
| "call_message (SetNavBarMenu items handler) =
     \<lparr>command = ''setNavBarMenu'', args = [MenuItemsArg items]\<rparr>"
| "call_message (ShowActionMenu params handler) =
     \<lparr>command = ''showActionMenu'', args = [ActionMenuParametersArg params]\<rparr>"

section \<open>Sequences of calls\<close>

text \<open>
  What a caller of the namespace can do, one call after the other: a define/show
  operation, the delivery of an inbound press on a channel, the capability query. A call
  that throws leaves the state it reached, and the next call starts from there; \<open>run\<close>
  performs the calls of a list from left to right.
\<close>

datatype 'w event = Define "'w define_call" | Press channel string | Query

fun step :: "'w event \<Rightarrow> 'w menus_state \<Rightarrow> 'w menus_state" where
  "step (Define k) s = snd (perform k s)"
| "step (Press c ident) s = snd (dispatch c ident s)"
| "step Query s = snd (isSupported s)"

definition run :: "'w event list \<Rightarrow> 'w menus_state \<Rightarrow> 'w menus_state" where
  "run es s = fold step es s"

fun is_press_on :: "channel \<Rightarrow> 'w event \<Rightarrow> bool" where
  "is_press_on c (Press c' ident) = (c' = c)"
| "is_press_on c (Define k) = False"
| "is_press_on c Query = False"

fun is_define_on :: "channel \<Rightarrow> 'w event \<Rightarrow> bool" where
  "is_define_on c (Define k) = (call_channel k = c)"
| "is_define_on c (Press c' ident) = False"
| "is_define_on c Query = False"

text \<open>
  Two projections of the state, for comparing runs: \<open>quiet\<close> forgets the outbox, and
  \<open>erase c\<close> forgets the outbox and the slot of channel \<open>c\<close>.
\<close>

definition quiet :: "'w menus_state \<Rightarrow> 'w menus_state" where
  "quiet s = s\<lparr>outbox := []\<rparr>"

fun erase :: "channel \<Rightarrow> 'w menus_state \<Rightarrow> 'w menus_state" where
  "erase NavBar s = s\<lparr>navBarMenuItemPressHandler := None, outbox := []\<rparr>"
| "erase ActionMenu s = s\<lparr>actionMenuItemPressHandler := None, outbox := []\<rparr>"
| "erase ViewConfig s = s\<lparr>viewConfigItemPressHandler := None, outbox := []\<rparr>"

section \<open>Concrete data for the examples\<close>

text \<open>
  The menu entry of the spec's scenario, \<^verbatim>\<open>{id:"a", title:"Alpha", icon:"<svg/>"}\<close>, with the
  class defaults \<^verbatim>\<open>enabled = true\<close> and \<^verbatim>\<open>selected = false\<close> and an empty drop-down as
  its view data.
\<close>

definition alpha :: MenuItem where
  "alpha = MenuItem ''a'' ''Alpha'' ''<svg/>'' None None True (ViewData None dropDown []) False"

text \<open>
  Handlers of a guest whose state is a log of the handler calls made so far:
  \<open>logging tag b\<close> notes its tag and the identifier and returns \<open>b\<close>; \<open>faulty\<close> notes
  the call and throws.
\<close>

definition logging :: "string \<Rightarrow> bool \<Rightarrow> string list handler" where
  "logging tag b ident w = (Returns b, w @ [tag @ ''('' @ ident @ '')''])"

definition faulty :: "string list handler" where
  "faulty ident w = (Throws ''boom'', w @ [''faulty''])"

text \<open>
  \<open>ready w\<close>: the handshake is complete and the host has declared no capability at all.
\<close>

definition ready :: "'w \<Rightarrow> 'w menus_state" where
  "ready w = (module_load w)\<lparr>initialized := True, runtime := Some Map.empty\<rparr>"

section \<open>What each function computes\<close>

lemmas define_defs = setUpViews_def setNavBarMenu_def showActionMenu_def

lemmas dispatch_defs =
  handleViewConfigItemPress_def handleNavBarMenuItemPress_def handleActionMenuItemPress_def

lemmas bridge_defs = andThen_def returns_def ensureInitialized_def sendMessageToParent_def

lemmas example_defs = alpha_def logging_def faulty_def ready_def module_load_def

lemma perform_uninitialized: "\<not> initialized s \<Longrightarrow> perform k s = (Inl NotInitialized, s)"
  by (cases k) (simp_all add: define_defs bridge_defs)

lemma dispatch_empty:
  "slot c s = None \<Longrightarrow> initialized s \<Longrightarrow>
   dispatch c ident s =
     (Inr (), s\<lparr>outbox := outbox s @ [\<lparr>command = fallback_command c, args = [IdArg ident]\<rparr>]\<rparr>)"
  by (cases c) (simp_all add: dispatch_defs bridge_defs declines_def)

lemma dispatch_empty_uninitialized:
  "slot c s = None \<Longrightarrow> \<not> initialized s \<Longrightarrow> dispatch c ident s = (Inl NotInitialized, s)"
  by (cases c) (simp_all add: dispatch_defs bridge_defs declines_def)

lemma dispatch_accepted:
  "slot c s = Some h \<Longrightarrow> h ident (guest s) = (Returns True, w) \<Longrightarrow>
   dispatch c ident s = (Inr (), s\<lparr>guest := w\<rparr>)"
  by (cases c) (simp_all add: dispatch_defs bridge_defs declines_def)

lemma dispatch_declined:
  "slot c s = Some h \<Longrightarrow> h ident (guest s) = (Returns False, w) \<Longrightarrow> initialized s \<Longrightarrow>
   dispatch c ident s =
     (Inr (), s\<lparr>guest := w,
               outbox := outbox s @ [\<lparr>command = fallback_command c, args = [IdArg ident]\<rparr>]\<rparr>)"
  by (cases c) (simp_all add: dispatch_defs bridge_defs declines_def)

lemma dispatch_declined_uninitialized:
  "slot c s = Some h \<Longrightarrow> h ident (guest s) = (Returns False, w) \<Longrightarrow> \<not> initialized s \<Longrightarrow>
   dispatch c ident s = (Inl NotInitialized, s\<lparr>guest := w\<rparr>)"
  by (cases c) (simp_all add: dispatch_defs bridge_defs declines_def)

lemma dispatch_thrown:
  "slot c s = Some h \<Longrightarrow> h ident (guest s) = (Throws e, w) \<Longrightarrow>
   dispatch c ident s = (Inl (HandlerFault e), s\<lparr>guest := w\<rparr>)"
  by (cases c) (simp_all add: dispatch_defs bridge_defs declines_def)

lemma perform_initialized:
  "initialized s \<Longrightarrow>
   perform k s =
     (Inr (), (case call_channel k of
                 NavBar \<Rightarrow> s\<lparr>navBarMenuItemPressHandler := Some (call_handler k)\<rparr>
               | ActionMenu \<Rightarrow> s\<lparr>actionMenuItemPressHandler := Some (call_handler k)\<rparr>
               | ViewConfig \<Rightarrow> s\<lparr>viewConfigItemPressHandler := Some (call_handler k)\<rparr>)
              \<lparr>outbox := outbox s @ [call_message k]\<rparr>)"
  by (cases k) (simp_all add: define_defs bridge_defs)

lemma perform_returns_initialized: "perform k s = (Inr u, s') \<Longrightarrow> initialized s"
  by (cases "initialized s") (simp_all add: perform_uninitialized)

lemma perform_slot:
  "initialized s \<Longrightarrow> slot (call_channel k) (snd (perform k s)) = Some (call_handler k)"
  by (cases k) (simp_all add: define_defs bridge_defs)

lemma perform_guest: "guest (snd (perform k s)) = guest s"
  by (cases k) (simp_all add: define_defs bridge_defs)

lemma dispatch_guest:
  "slot c s = Some h \<Longrightarrow> guest (snd (dispatch c ident s)) = snd (h ident (guest s))"
  by (cases c; cases "h ident (guest s)"; cases "fst (h ident (guest s))")
     (auto simp add: dispatch_defs bridge_defs declines_def split: if_splits)

lemma perform_keeps_initialized: "initialized (snd (perform k s)) = initialized s"
  by (cases k) (simp_all add: define_defs bridge_defs)

lemma dispatch_result:
  "slot c s = Some h \<Longrightarrow> initialized s \<Longrightarrow>
   fst (dispatch c ident s) =
     (case fst (h ident (guest s)) of Returns b \<Rightarrow> Inr () | Throws e \<Rightarrow> Inl (HandlerFault e))"
  by (cases c; cases "h ident (guest s)"; cases "fst (h ident (guest s))")
     (auto simp add: dispatch_defs bridge_defs declines_def split: if_splits)

section \<open>Runs: what a call keeps and what it does not read\<close>

lemma perform_other_slot: "c \<noteq> call_channel k \<Longrightarrow> slot c (snd (perform k s)) = slot c s"
  by (cases k; cases c) (simp_all add: define_defs bridge_defs)

lemma dispatch_keeps_initialized: "initialized (snd (dispatch c ident s)) = initialized s"
  by (cases c)
     (auto simp add: dispatch_defs bridge_defs declines_def
           split: option.splits prod.splits handler_result.splits)

lemma dispatch_slot: "slot c' (snd (dispatch c ident s)) = slot c' s"
  by (cases c; cases c')
     (auto simp add: dispatch_defs bridge_defs declines_def
           split: option.splits prod.splits handler_result.splits)

lemma step_keeps_initialized: "initialized (step e s) = initialized s"
  by (cases e)
     (simp_all add: perform_keeps_initialized dispatch_keeps_initialized isSupported_def returns_def)

lemma run_keeps_initialized: "initialized (run es s) = initialized s"
  unfolding run_def by (induction es arbitrary: s) (simp_all add: step_keeps_initialized)

lemma step_slot: "\<not> is_define_on c e \<Longrightarrow> slot c (step e s) = slot c s"
  by (cases e) (simp_all add: perform_other_slot dispatch_slot isSupported_def returns_def)

lemma run_slot: "list_all (\<lambda>e. \<not> is_define_on c e) es \<Longrightarrow> slot c (run es s) = slot c s"
  unfolding run_def by (induction es arbitrary: s) (simp_all add: step_slot)

lemma perform_erase: "erase c (snd (perform k s)) = erase c (snd (perform k (erase c s)))"
  by (cases k; cases c) (simp_all add: define_defs bridge_defs)

lemma perform_erase_own: "call_channel k = c \<Longrightarrow> erase c (snd (perform k s)) = erase c s"
  by (cases k; cases c) (simp_all add: define_defs bridge_defs)

lemma perform_quiet_own:
  "call_channel k = c \<Longrightarrow> initialized s \<Longrightarrow> quiet (snd (perform k s)) = quiet (snd (perform k (erase c s)))"
  by (cases k; cases c) (simp_all add: define_defs bridge_defs quiet_def)

lemma dispatch_erase:
  "c' \<noteq> c \<Longrightarrow> erase c (snd (dispatch c' ident s)) = erase c (snd (dispatch c' ident (erase c s)))"
  by (cases c; cases c')
     (auto simp add: dispatch_defs bridge_defs declines_def
           split: option.splits prod.splits handler_result.splits)

lemma step_erase: "\<not> is_press_on c e \<Longrightarrow> erase c (step e s) = erase c (step e (erase c s))"
proof (cases e)
  case (Define k)
  then show ?thesis using perform_erase [of c k s] by simp
next
  case (Press c' ident)
  assume "\<not> is_press_on c e"
  with Press have "c' \<noteq> c" by simp
  with Press show ?thesis using dispatch_erase [of c' c ident s] by simp
next
  case Query
  then show ?thesis by (cases c) (simp_all add: isSupported_def returns_def)
qed

lemma run_erase:
  "list_all (\<lambda>e. \<not> is_press_on c e) es \<Longrightarrow> erase c s = erase c t \<Longrightarrow>
   erase c (run es s) = erase c (run es t)"
  unfolding run_def
proof (induction es arbitrary: s t)
  case Nil
  then show ?case by simp
next
  case (Cons e es)
  from Cons.prems have e: "\<not> is_press_on c e" and es: "list_all (\<lambda>e. \<not> is_press_on c e) es"
    by simp_all
  have "erase c (step e s) = erase c (step e (erase c s))"
    using e by (rule step_erase)
  also have "\<dots> = erase c (step e (erase c t))"
    using Cons.prems(2) by simp
  also have "\<dots> = erase c (step e t)"
    using e by (rule step_erase [symmetric])
  finally have "erase c (step e s) = erase c (step e t)" .
  from Cons.IH [OF es this] show ?case
    by simp
qed

lemma perform_quiet: "quiet (snd (perform k s)) = quiet (snd (perform k (quiet s)))"
  by (cases k) (simp_all add: define_defs bridge_defs quiet_def)

lemma dispatch_quiet:
  "quiet (snd (dispatch c ident s)) = quiet (snd (dispatch c ident (quiet s)))"
  by (cases c)
     (auto simp add: dispatch_defs bridge_defs declines_def quiet_def
           split: option.splits prod.splits handler_result.splits)

lemma dispatch_quiet_result: "fst (dispatch c ident s) = fst (dispatch c ident (quiet s))"
  by (cases c)
     (auto simp add: dispatch_defs bridge_defs declines_def quiet_def
           split: option.splits prod.splits handler_result.splits)

lemma step_quiet: "quiet (step e s) = quiet (step e (quiet s))"
proof (cases e)
  case (Define k)
  then show ?thesis using perform_quiet [of k s] by simp
next
  case (Press c ident)
  then show ?thesis using dispatch_quiet [of c ident s] by simp
next
  case Query
  then show ?thesis by (simp add: isSupported_def returns_def quiet_def)
qed

lemma run_quiet: "quiet s = quiet t \<Longrightarrow> quiet (run es s) = quiet (run es t)"
  unfolding run_def
proof (induction es arbitrary: s t)
  case Nil
  then show ?case by simp
next
  case (Cons e es)
  have "quiet (step e s) = quiet (step e (quiet s))"
    by (rule step_quiet)
  also have "\<dots> = quiet (step e (quiet t))"
    using Cons.prems by simp
  also have "\<dots> = quiet (step e t)"
    by (rule step_quiet [symmetric])
  finally have "quiet (step e s) = quiet (step e t)" .
  from Cons.IH [OF this] show ?case
    by simp
qed


lemma run_trace:
  "run (Define k1 # mid @ Define k2 # after) s =
   run after (snd (perform k2 (run mid (snd (perform k1 s)))))"
  by (simp add: run_def)

section \<open>Selection dispatch: fallback to the host\<close>

text \<open>
  Claim C1, as the code has it. For every channel \<open>c\<close> and every identifier delivered
  inbound: when the channel's handler returns true, the dispatch sends nothing; when the
  handler returns false, or the slot is empty, and the session is initialized, the
  dispatch sends exactly one command, the channel's fallback command with the identifier
  as its sole argument. The guard \<^verbatim>\<open>ensureInitialized()\<close> stands between the decision and the
  send: when the session is not initialized, the unhandled press ends in the
  Not-initialized error and nothing is sent.
\<close>

theorem dispatch_fallback_when_unhandled:
  "(slot c s = Some h \<and> h ident (guest s) = (Returns True, w) \<longrightarrow>
      dispatch c ident s = (Inr (), s\<lparr>guest := w\<rparr>) \<and>
      outbox (snd (dispatch c ident s)) = outbox s) \<and>
   (initialized s \<and> slot c s = Some h \<and> h ident (guest s) = (Returns False, w) \<longrightarrow>
      fst (dispatch c ident s) = Inr () \<and>
      outbox (snd (dispatch c ident s)) =
        outbox s @ [\<lparr>command = fallback_command c, args = [IdArg ident]\<rparr>]) \<and>
   (initialized s \<and> slot c s = None \<longrightarrow>
      fst (dispatch c ident s) = Inr () \<and>
      outbox (snd (dispatch c ident s)) =
        outbox s @ [\<lparr>command = fallback_command c, args = [IdArg ident]\<rparr>]) \<and>
   (\<not> initialized s \<and>
    (slot c s = None \<or> slot c s = Some h \<and> h ident (guest s) = (Returns False, w)) \<longrightarrow>
      fst (dispatch c ident s) = Inl NotInitialized \<and>
      outbox (snd (dispatch c ident s)) = outbox s)"
  by (auto simp add: dispatch_empty dispatch_empty_uninitialized dispatch_accepted
        dispatch_declined dispatch_declined_uninitialized)

theorem dispatch_fallback_when_unhandled_witness:
  "dispatch NavBar ''a'' ((ready [])\<lparr>navBarMenuItemPressHandler := Some (logging ''h1'' True)\<rparr>)
     = (Inr (), (ready [])\<lparr>navBarMenuItemPressHandler := Some (logging ''h1'' True),
                  guest := [''h1(a)'']\<rparr>)
   \<and> outbox (snd (dispatch NavBar ''a''
        ((ready [])\<lparr>navBarMenuItemPressHandler := Some (logging ''h1'' False)\<rparr>)))
     = [\<lparr>command = ''handleNavBarMenuItemPress'', args = [IdArg ''a'']\<rparr>]
   \<and> outbox (snd (dispatch ViewConfig ''a'' (ready ([]::string list))))
     = [\<lparr>command = ''viewConfigItemPress'', args = [IdArg ''a'']\<rparr>]
   \<and> fst (dispatch ActionMenu ''a'' (module_load ([]::string list))) = Inl NotInitialized
   \<and> outbox (snd (dispatch ActionMenu ''a'' (module_load ([]::string list)))) = []"
  using
    dispatch_fallback_when_unhandled [of NavBar
      "(ready [])\<lparr>navBarMenuItemPressHandler := Some (logging ''h1'' True)\<rparr>"
      "logging ''h1'' True" "''a''" "[''h1(a)'']"]
    dispatch_fallback_when_unhandled [of NavBar
      "(ready [])\<lparr>navBarMenuItemPressHandler := Some (logging ''h1'' False)\<rparr>"
      "logging ''h1'' False" "''a''" "[''h1(a)'']"]
    dispatch_fallback_when_unhandled [of ViewConfig "ready ([]::string list)"
      undefined "''a''" undefined]
    dispatch_fallback_when_unhandled [of ActionMenu "module_load ([]::string list)"
      undefined "''a''" undefined]
  by (simp add: example_defs)

text \<open>
  Without the condition on the session, C1 fails: at module load no handler is registered
  for the navigation-bar channel, and a press of \<open>a\<close> ends in the Not-initialized error
  with an empty outbox, where the claim has one fallback command.
\<close>

theorem uninitialized_press_sends_nothing:
  "slot NavBar (module_load ()) = None
   \<and> fst (dispatch NavBar ''a'' (module_load ())) = Inl NotInitialized
   \<and> outbox (snd (dispatch NavBar ''a'' (module_load ()))) = []"
  by (simp add: module_load_def dispatch_defs bridge_defs declines_def)

text \<open>
  Claim C2, as the code has it. In an initialized session, a navigation-bar press that is
  not handled locally (empty slot, or a handler returning false) sends the command named
  \<^verbatim>\<open>handleNavBarMenuItemPress\<close> with the selected identifier as its sole argument, and an
  action-menu press sends \<^verbatim>\<open>handleActionMenuItemPress\<close> likewise.
\<close>

theorem nav_and_action_fallback_names:
  "initialized s \<Longrightarrow>
   (navBarMenuItemPressHandler s = None \<or>
    navBarMenuItemPressHandler s = Some h \<and> h ident (guest s) = (Returns False, w) \<longrightarrow>
      outbox (snd (handleNavBarMenuItemPress ident s)) =
        outbox s @ [\<lparr>command = ''handleNavBarMenuItemPress'', args = [IdArg ident]\<rparr>]) \<and>
   (actionMenuItemPressHandler s = None \<or>
    actionMenuItemPressHandler s = Some h \<and> h ident (guest s) = (Returns False, w) \<longrightarrow>
      outbox (snd (handleActionMenuItemPress ident s)) =
        outbox s @ [\<lparr>command = ''handleActionMenuItemPress'', args = [IdArg ident]\<rparr>])"
  using dispatch_empty [of NavBar s ident] dispatch_declined [of NavBar s h ident w]
        dispatch_empty [of ActionMenu s ident] dispatch_declined [of ActionMenu s h ident w]
  by auto

theorem nav_and_action_fallback_names_witness:
  "outbox (snd (handleNavBarMenuItemPress ''a'' (ready ([]::string list)))) =
     [\<lparr>command = ''handleNavBarMenuItemPress'', args = [IdArg ''a'']\<rparr>] \<and>
   outbox (snd (handleActionMenuItemPress ''a''
      ((ready [])\<lparr>actionMenuItemPressHandler := Some (logging ''h1'' False)\<rparr>))) =
     [\<lparr>command = ''handleActionMenuItemPress'', args = [IdArg ''a'']\<rparr>]"
  using
    nav_and_action_fallback_names [of "ready ([]::string list)" undefined "''a''" undefined]
    nav_and_action_fallback_names [of
      "(ready [])\<lparr>actionMenuItemPressHandler := Some (logging ''h1'' False)\<rparr>"
      "logging ''h1'' False" "''a''" "[''h1(a)'']"]
  by (simp add: example_defs)

text \<open>
  The names that C2 gives, \<^verbatim>\<open>navBarMenuItemPress\<close> and \<^verbatim>\<open>actionMenuItemPress\<close>, are the
  names of the inbound commands that \<^verbatim>\<open>initialize\<close> registers. The outbound fallback of an
  unhandled press in an initialized session carries another name.
\<close>

theorem nav_fallback_name_differs:
  "outbox (snd (handleNavBarMenuItemPress ''a'' (ready ()))) =
     [\<lparr>command = ''handleNavBarMenuItemPress'', args = [IdArg ''a'']\<rparr>] \<and>
   command (last (outbox (snd (handleNavBarMenuItemPress ''a'' (ready ()))))) \<noteq>
     ''navBarMenuItemPress'' \<and>
   command (last (outbox (snd (handleActionMenuItemPress ''a'' (ready ()))))) \<noteq>
     ''actionMenuItemPress''"
  by (simp add: example_defs dispatch_defs bridge_defs declines_def)

text \<open>
  Claim C7. When the handler registered for a channel throws during a dispatch, the
  dispatch ends with the handler's error, passed on as it is, and sends no fallback
  command.
\<close>

theorem handler_fault_propagates:
  "slot c s = Some h \<Longrightarrow> h ident (guest s) = (Throws e, w) \<Longrightarrow>
   fst (dispatch c ident s) = Inl (HandlerFault e) \<and>
   outbox (snd (dispatch c ident s)) = outbox s"
  by (simp add: dispatch_thrown)

theorem handler_fault_propagates_witness:
  "fst (dispatch NavBar ''a'' ((ready [])\<lparr>navBarMenuItemPressHandler := Some faulty\<rparr>)) =
     Inl (HandlerFault ''boom'') \<and>
   outbox (snd (dispatch NavBar ''a'' ((ready [])\<lparr>navBarMenuItemPressHandler := Some faulty\<rparr>))) = []"
proof -
  let ?s = "(ready ([]::string list))\<lparr>navBarMenuItemPressHandler := Some faulty\<rparr>"
  have a: "slot NavBar ?s = Some faulty"
    by simp
  have b: "faulty ''a'' (guest ?s) = (Throws ''boom'', [''faulty''])"
    by (simp add: faulty_def ready_def module_load_def)
  from handler_fault_propagates [OF a b] show ?thesis
    by (simp add: ready_def module_load_def)
qed

section \<open>Define/show operations: guard, store, send\<close>

text \<open>
  Claim C3. Each of \<^verbatim>\<open>setUpViews\<close>, \<^verbatim>\<open>setNavBarMenu\<close> and \<^verbatim>\<open>showActionMenu\<close>, called
  while the session is not initialized, ends in the Not-initialized error, which reaches
  the caller as the result of the call, and hands nothing to the bridge.
\<close>

theorem define_before_initialization_fails:
  "\<not> initialized s \<Longrightarrow>
   fst (setUpViews viewConfig h s) = Inl NotInitialized \<and>
   outbox (snd (setUpViews viewConfig h s)) = outbox s \<and>
   fst (setNavBarMenu items h s) = Inl NotInitialized \<and>
   outbox (snd (setNavBarMenu items h s)) = outbox s \<and>
   fst (showActionMenu params h s) = Inl NotInitialized \<and>
   outbox (snd (showActionMenu params h s)) = outbox s"
  by (simp add: define_defs bridge_defs)

theorem define_before_initialization_fails_witness:
  "fst (setUpViews [\<lparr>vc_id = ''v'', vc_title = ''View'', vc_contentDescription = None\<rparr>]
          (logging ''h1'' True) (module_load [])) = Inl NotInitialized \<and>
   outbox (snd (setUpViews [\<lparr>vc_id = ''v'', vc_title = ''View'', vc_contentDescription = None\<rparr>]
          (logging ''h1'' True) (module_load []))) = [] \<and>
   fst (setNavBarMenu [alpha] (logging ''h1'' True) (module_load [])) = Inl NotInitialized \<and>
   outbox (snd (setNavBarMenu [alpha] (logging ''h1'' True) (module_load []))) = [] \<and>
   fst (showActionMenu \<lparr>am_title = ''Actions'', am_items = [alpha]\<rparr> (logging ''h1'' True)
     (module_load [])) = Inl NotInitialized \<and>
   outbox (snd (showActionMenu \<lparr>am_title = ''Actions'', am_items = [alpha]\<rparr> (logging ''h1'' True)
     (module_load []))) = []"
  using define_before_initialization_fails [of "module_load []"
      "[\<lparr>vc_id = ''v'', vc_title = ''View'', vc_contentDescription = None\<rparr>]"
      "logging ''h1'' True" "[alpha]" "\<lparr>am_title = ''Actions'', am_items = [alpha]\<rparr>"]
  by (simp add: module_load_def)

text \<open>
  Claim C5. In an initialized session each operation stores the handler in its channel's
  slot, over whatever the slot held, and then sends one command: the send runs on the
  state that already holds the handler, the outbox grows by exactly the named command
  with the caller's payload as its sole argument, and the call returns no value.
\<close>

theorem define_stores_then_sends:
  "initialized s \<Longrightarrow>
   setUpViews viewConfig h s =
     sendMessageToParent ''setUpViews'' [ViewConfigurationsArg viewConfig]
       (s\<lparr>viewConfigItemPressHandler := Some h\<rparr>) \<and>
   setUpViews viewConfig h s =
     (Inr (), s\<lparr>viewConfigItemPressHandler := Some h,
               outbox := outbox s @
                 [\<lparr>command = ''setUpViews'', args = [ViewConfigurationsArg viewConfig]\<rparr>]\<rparr>) \<and>
   setNavBarMenu items h s =
     sendMessageToParent ''setNavBarMenu'' [MenuItemsArg items]
       (s\<lparr>navBarMenuItemPressHandler := Some h\<rparr>) \<and>
   setNavBarMenu items h s =
     (Inr (), s\<lparr>navBarMenuItemPressHandler := Some h,
               outbox := outbox s @
                 [\<lparr>command = ''setNavBarMenu'', args = [MenuItemsArg items]\<rparr>]\<rparr>) \<and>
   showActionMenu params h s =
     sendMessageToParent ''showActionMenu'' [ActionMenuParametersArg params]
       (s\<lparr>actionMenuItemPressHandler := Some h\<rparr>) \<and>
   showActionMenu params h s =
     (Inr (), s\<lparr>actionMenuItemPressHandler := Some h,
               outbox := outbox s @
                 [\<lparr>command = ''showActionMenu'', args = [ActionMenuParametersArg params]\<rparr>]\<rparr>)"
  by (simp add: define_defs bridge_defs)

theorem define_stores_then_sends_witness:
  "setNavBarMenu [alpha] (logging ''h1'' True)
     ((ready [])\<lparr>navBarMenuItemPressHandler := Some (logging ''h0'' False)\<rparr>) =
     (Inr (), (ready [])\<lparr>navBarMenuItemPressHandler := Some (logging ''h1'' True),
                outbox := [\<lparr>command = ''setNavBarMenu'', args = [MenuItemsArg [alpha]]\<rparr>]\<rparr>) \<and>
   setUpViews [] (logging ''h1'' True) (ready []) =
     (Inr (), (ready [])\<lparr>viewConfigItemPressHandler := Some (logging ''h1'' True),
                outbox := [\<lparr>command = ''setUpViews'', args = [ViewConfigurationsArg []]\<rparr>]\<rparr>) \<and>
   showActionMenu \<lparr>am_title = ''Actions'', am_items = [alpha]\<rparr> (logging ''h1'' True) (ready []) =
     (Inr (), (ready [])\<lparr>actionMenuItemPressHandler := Some (logging ''h1'' True),
                outbox := [\<lparr>command = ''showActionMenu'',
                   args = [ActionMenuParametersArg \<lparr>am_title = ''Actions'', am_items = [alpha]\<rparr>]\<rparr>]\<rparr>)"
  using
    define_stores_then_sends [of
      "(ready [])\<lparr>navBarMenuItemPressHandler := Some (logging ''h0'' False)\<rparr>"
      "[]" "logging ''h1'' True" "[alpha]" "\<lparr>am_title = ''Actions'', am_items = [alpha]\<rparr>"]
    define_stores_then_sends [of "ready []"
      "[]" "logging ''h1'' True" "[alpha]" "\<lparr>am_title = ''Actions'', am_items = [alpha]\<rparr>"]
  by (simp add: ready_def module_load_def sendMessageToParent_def)

text \<open>
  Claim C4, as the code has it. In an initialized session, take a call of a channel's
  operation with handler \<open>H1\<close>, then any calls that deliver no press on that channel, then
  a call of the channel's operation with \<open>H2\<close>, then any calls other than the channel's
  operation. Both calls return, and the channel's slot holds \<open>H2\<close>. A press on the channel
  then calls \<open>H2\<close>: the guest is left in the state that \<open>H2\<close> produces from the guest state
  at the press, and the press returns or throws as \<open>H2\<close> does. \<open>H1\<close> has no part in it: with
  any other first call on the channel in its place, the press has the same result and
  leaves the same state, the outbox apart (it records the first call's payload).
\<close>

theorem later_handler_wins:
  assumes "initialized s"
    and "call_channel k1 = c" and "call_channel k2 = c" and "call_channel k1' = c"
    and "list_all (\<lambda>e. \<not> is_press_on c e) mid"
    and "list_all (\<lambda>e. \<not> is_define_on c e) after"
  shows "fst (perform k1 s) = Inr () \<and>
         fst (perform k2 (run (Define k1 # mid) s)) = Inr () \<and>
         slot c (run (Define k1 # mid @ Define k2 # after) s) = Some (call_handler k2) \<and>
         guest (snd (dispatch c ident (run (Define k1 # mid @ Define k2 # after) s))) =
           snd (call_handler k2 ident (guest (run (Define k1 # mid @ Define k2 # after) s))) \<and>
         fst (dispatch c ident (run (Define k1 # mid @ Define k2 # after) s)) =
           (case fst (call_handler k2 ident (guest (run (Define k1 # mid @ Define k2 # after) s))) of
              Returns b \<Rightarrow> Inr ()
            | Throws e \<Rightarrow> Inl (HandlerFault e)) \<and>
         fst (dispatch c ident (run (Define k1' # mid @ Define k2 # after) s)) =
           fst (dispatch c ident (run (Define k1 # mid @ Define k2 # after) s)) \<and>
         quiet (snd (dispatch c ident (run (Define k1' # mid @ Define k2 # after) s))) =
           quiet (snd (dispatch c ident (run (Define k1 # mid @ Define k2 # after) s)))"
proof -
  let ?m = "run mid (snd (perform k1 s))"
  let ?m' = "run mid (snd (perform k1' s))"
  let ?d = "snd (perform k2 ?m)"
  let ?d' = "snd (perform k2 ?m')"
  let ?f = "run after ?d"
  let ?f' = "run after ?d'"
  have f: "run (Define k1 # mid @ Define k2 # after) s = ?f"
    and f': "run (Define k1' # mid @ Define k2 # after) s = ?f'"
    by (simp_all only: run_trace)
  have m: "run (Define k1 # mid) s = ?m"
    by (simp add: run_def)
  have ok1: "fst (perform k1 s) = Inr ()"
    using assms(1) by (simp add: perform_initialized)
  have im: "initialized ?m" and im': "initialized ?m'"
    using assms(1) by (simp_all add: run_keeps_initialized perform_keeps_initialized)
  have ok2: "fst (perform k2 ?m) = Inr ()"
    using im by (simp add: perform_initialized)
  have "slot c ?f = slot c ?d"
    using assms(6) by (rule run_slot)
  also have "\<dots> = Some (call_handler k2)"
    using perform_slot [OF im, of k2] assms(3) by simp
  finally have slot_f: "slot c ?f = Some (call_handler k2)" .
  have i_f: "initialized ?f"
    using im by (simp add: run_keeps_initialized perform_keeps_initialized)
  have "erase c (snd (perform k1 s)) = erase c (snd (perform k1' s))"
    using assms(2,4) by (simp add: perform_erase_own)
  with assms(5) have "erase c ?m = erase c ?m'"
    by (rule run_erase)
  then have "quiet ?d = quiet ?d'"
    using perform_quiet_own [OF assms(3) im] perform_quiet_own [OF assms(3) im'] by simp
  then have q: "quiet ?f' = quiet ?f"
    using run_quiet [of ?d ?d' after] by simp
  have r: "fst (dispatch c ident ?f') = fst (dispatch c ident ?f)"
    using dispatch_quiet_result [of c ident ?f] dispatch_quiet_result [of c ident ?f'] q
    by simp
  have g: "quiet (snd (dispatch c ident ?f')) = quiet (snd (dispatch c ident ?f))"
    using dispatch_quiet [of c ident ?f] dispatch_quiet [of c ident ?f'] q
    by simp
  from ok1 ok2 slot_f dispatch_guest [OF slot_f, of ident] dispatch_result [OF slot_f i_f, of ident]
    r g
  show ?thesis
    unfolding f f' m by simp
qed

theorem later_handler_wins_witness:
  "slot ActionMenu
     (run (Define (ShowActionMenu \<lparr>am_title = ''Actions'', am_items = [alpha]\<rparr> (logging ''H1'' False))
           # [Define (SetNavBarMenu [alpha] (logging ''nav'' True)), Press NavBar ''n'', Query]
           @ Define (ShowActionMenu \<lparr>am_title = ''More'', am_items = []\<rparr> (logging ''H2'' True))
           # [Press ViewConfig ''v'', Press ActionMenu ''b''])
        (ready [])) = Some (logging ''H2'' True) \<and>
   guest (snd (dispatch ActionMenu ''a''
     (run (Define (ShowActionMenu \<lparr>am_title = ''Actions'', am_items = [alpha]\<rparr> (logging ''H1'' False))
           # [Define (SetNavBarMenu [alpha] (logging ''nav'' True)), Press NavBar ''n'', Query]
           @ Define (ShowActionMenu \<lparr>am_title = ''More'', am_items = []\<rparr> (logging ''H2'' True))
           # [Press ViewConfig ''v'', Press ActionMenu ''b''])
        (ready [])))) = [''nav(n)'', ''H2(b)'', ''H2(a)''] \<and>
   fst (dispatch ActionMenu ''a''
     (run (Define (ShowActionMenu \<lparr>am_title = ''Actions'', am_items = [alpha]\<rparr> (logging ''H1'' False))
           # [Define (SetNavBarMenu [alpha] (logging ''nav'' True)), Press NavBar ''n'', Query]
           @ Define (ShowActionMenu \<lparr>am_title = ''More'', am_items = []\<rparr> (logging ''H2'' True))
           # [Press ViewConfig ''v'', Press ActionMenu ''b''])
        (ready []))) = Inr () \<and>
   guest (snd (dispatch ActionMenu ''a''
     (run (Define (ShowActionMenu \<lparr>am_title = ''Other'', am_items = []\<rparr> faulty)
           # [Define (SetNavBarMenu [alpha] (logging ''nav'' True)), Press NavBar ''n'', Query]
           @ Define (ShowActionMenu \<lparr>am_title = ''More'', am_items = []\<rparr> (logging ''H2'' True))
           # [Press ViewConfig ''v'', Press ActionMenu ''b''])
        (ready [])))) = [''nav(n)'', ''H2(b)'', ''H2(a)'']"
proof -
  let ?k1 = "ShowActionMenu \<lparr>am_title = ''Actions'', am_items = [alpha]\<rparr> (logging ''H1'' False)"
  let ?k1' = "ShowActionMenu \<lparr>am_title = ''Other'', am_items = []\<rparr> faulty"
  let ?k2 = "ShowActionMenu \<lparr>am_title = ''More'', am_items = []\<rparr> (logging ''H2'' True)"
  let ?mid = "[Define (SetNavBarMenu [alpha] (logging ''nav'' True)), Press NavBar ''n'', Query]"
  let ?after = "[Press ViewConfig ''v'', Press ActionMenu ''b'']"
  let ?s = "ready ([]::string list)"
  let ?p = "snd (dispatch ActionMenu ''a'' (run (Define ?k1 # ?mid @ Define ?k2 # ?after) ?s))"
  let ?p' = "snd (dispatch ActionMenu ''a'' (run (Define ?k1' # ?mid @ Define ?k2 # ?after) ?s))"
  have i: "initialized ?s"
    by (simp add: ready_def)
  have c1: "call_channel ?k1 = ActionMenu" and c2: "call_channel ?k2 = ActionMenu"
    and c1': "call_channel ?k1' = ActionMenu"
    by simp_all
  have m: "list_all (\<lambda>e. \<not> is_press_on ActionMenu e) ?mid"
    by simp
  have a: "list_all (\<lambda>e. \<not> is_define_on ActionMenu e) ?after"
    by simp
  have g: "guest (run (Define ?k1 # ?mid @ Define ?k2 # ?after) ?s) = [''nav(n)'', ''H2(b)'']"
    by (simp add: run_def define_defs dispatch_defs bridge_defs declines_def isSupported_def
          logging_def ready_def module_load_def)
  note t = later_handler_wins [OF i c1 c2 c1' m a, of "''a''"]
  from t have first: "slot ActionMenu (run (Define ?k1 # ?mid @ Define ?k2 # ?after) ?s) =
      Some (logging ''H2'' True)"
    and second: "guest ?p = [''nav(n)'', ''H2(b)'', ''H2(a)'']"
    and third: "fst (dispatch ActionMenu ''a'' (run (Define ?k1 # ?mid @ Define ?k2 # ?after) ?s)) =
      Inr ()"
    unfolding g by (simp_all add: logging_def)
  from t have "quiet ?p' = quiet ?p"
    by (simp only: simp_thms)
  then have "guest (quiet ?p') = guest (quiet ?p)"
    by (rule arg_cong)
  then have fourth: "guest ?p' = [''nav(n)'', ''H2(b)'', ''H2(a)'']"
    using second by (simp add: quiet_def)
  from first second third fourth show ?thesis
    by (simp only: simp_thms)
qed

text \<open>
  Without the condition on the session, C4 fails: at module load both calls of
  \<^verbatim>\<open>showActionMenu\<close> throw at the guard, the slot of the action channel stays empty, and a
  press of \<open>a\<close> calls neither handler, where the claim has \<open>H2\<close> active and called.
\<close>

theorem uninitialized_registration_is_lost:
  "actionMenuItemPressHandler
     (snd (showActionMenu \<lparr>am_title = ''More'', am_items = []\<rparr> (logging ''H2'' True)
        (snd (showActionMenu \<lparr>am_title = ''Actions'', am_items = [alpha]\<rparr> (logging ''H1'' True)
           (module_load []))))) = None \<and>
   fst (handleActionMenuItemPress ''a''
     (snd (showActionMenu \<lparr>am_title = ''More'', am_items = []\<rparr> (logging ''H2'' True)
        (snd (showActionMenu \<lparr>am_title = ''Actions'', am_items = [alpha]\<rparr> (logging ''H1'' True)
           (module_load [])))))) = Inl NotInitialized \<and>
   guest (snd (handleActionMenuItemPress ''a''
     (snd (showActionMenu \<lparr>am_title = ''More'', am_items = []\<rparr> (logging ''H2'' True)
        (snd (showActionMenu \<lparr>am_title = ''Actions'', am_items = [alpha]\<rparr> (logging ''H1'' True)
           (module_load []))))))) = []"
  by (simp add: showActionMenu_def handleActionMenuItemPress_def bridge_defs declines_def
        module_load_def)

text \<open>
  Claim C8. No define/show operation reads the capability registry. In an initialized
  session the call returns normally and sends its command whatever the registry \<open>r\<close> holds,
  also when the host declared no menus capability, and the state it leaves is the one it
  leaves under any other registry, with \<open>r\<close> in place.
\<close>

theorem define_ignores_capability:
  "initialized s \<Longrightarrow>
   fst (perform k (s\<lparr>runtime := r\<rparr>)) = Inr () \<and>
   outbox (snd (perform k (s\<lparr>runtime := r\<rparr>))) = outbox s @ [call_message k] \<and>
   snd (perform k (s\<lparr>runtime := r\<rparr>)) = (snd (perform k s))\<lparr>runtime := r\<rparr>"
  by (cases k) (simp_all add: define_defs bridge_defs)

theorem define_ignores_capability_witness:
  "fst (isSupported (ready ([]::string list))) = Inr False \<and>
   fst (setNavBarMenu [alpha] (logging ''h1'' True) (ready [])) = Inr () \<and>
   outbox (snd (setNavBarMenu [alpha] (logging ''h1'' True) (ready []))) =
     [\<lparr>command = ''setNavBarMenu'', args = [MenuItemsArg [alpha]]\<rparr>]"
proof -
  let ?k = "SetNavBarMenu [alpha] (logging ''h1'' True)"
  have i: "initialized (ready ([]::string list))"
    by (simp add: ready_def)
  have r: "(ready ([]::string list))\<lparr>runtime := Some Map.empty\<rparr> = ready []"
    by (simp add: ready_def)
  have o: "outbox (ready ([]::string list)) = []"
    by (simp add: ready_def module_load_def)
  have u: "fst (isSupported (ready ([]::string list))) = Inr False"
    by (simp add: isSupported_def supports_menus_def returns_def ready_def)
  from define_ignores_capability [OF i, of ?k "Some Map.empty"]
  have "fst (perform ?k (ready [])) = Inr ()"
    and "outbox (snd (perform ?k (ready []))) = [call_message ?k]"
    by (simp_all only: r o append_Nil)
  with u show ?thesis
    by simp
qed

text \<open>
  Claim C9. A define/show operation that fails with the Not-initialized error leaves the
  slot of its channel as it was, empty or holding the earlier handler: the guard throws
  before the assignment, and indeed the whole state is as before the call.
\<close>

theorem failed_define_keeps_slot:
  "fst (perform k s) = Inl NotInitialized \<Longrightarrow>
   slot (call_channel k) (snd (perform k s)) = slot (call_channel k) s \<and> snd (perform k s) = s"
  by (cases "initialized s") (simp_all add: perform_initialized perform_uninitialized)

theorem failed_define_keeps_slot_witness:
  "fst (setUpViews [] (logging ''new'' True)
     ((module_load [])\<lparr>viewConfigItemPressHandler := Some (logging ''old'' True)\<rparr>)) =
     Inl NotInitialized \<and>
   viewConfigItemPressHandler (snd (setUpViews [] (logging ''new'' True)
     ((module_load [])\<lparr>viewConfigItemPressHandler := Some (logging ''old'' True)\<rparr>))) =
     Some (logging ''old'' True)"
proof -
  let ?s = "(module_load ([]::string list))\<lparr>viewConfigItemPressHandler := Some (logging ''old'' True)\<rparr>"
  let ?k = "SetUpViews [] (logging ''new'' True)"
  have f: "fst (perform ?k ?s) = Inl NotInitialized"
    by (simp add: setUpViews_def bridge_defs module_load_def)
  from failed_define_keeps_slot [OF f] f show ?thesis
    by simp
qed

text \<open>
  Claim C10. A define/show operation assigns the slot of its own channel only: the slot of
  every other channel holds after the call what it held before, whether the call returned
  or threw.
\<close>

theorem define_writes_own_slot_only:
  "c \<noteq> call_channel k \<Longrightarrow> slot c (snd (perform k s)) = slot c s"
  by (cases k; cases c) (simp_all add: define_defs bridge_defs)

theorem define_writes_own_slot_only_witness:
  "actionMenuItemPressHandler (snd (setNavBarMenu [alpha] (logging ''nav'' True)
     ((ready [])\<lparr>actionMenuItemPressHandler := Some (logging ''act'' True)\<rparr>))) =
     Some (logging ''act'' True) \<and>
   viewConfigItemPressHandler (snd (setNavBarMenu [alpha] (logging ''nav'' True)
     ((ready [])\<lparr>actionMenuItemPressHandler := Some (logging ''act'' True)\<rparr>))) = None"
proof -
  let ?s = "(ready ([]::string list))\<lparr>actionMenuItemPressHandler := Some (logging ''act'' True)\<rparr>"
  let ?k = "SetNavBarMenu [alpha] (logging ''nav'' True)"
  have a: "ActionMenu \<noteq> call_channel ?k" and v: "ViewConfig \<noteq> call_channel ?k"
    by simp_all
  from define_writes_own_slot_only [OF a, of ?s] define_writes_own_slot_only [OF v, of ?s]
  show ?thesis
    by (simp add: ready_def module_load_def)
qed

section \<open>Capability query\<close>

text \<open>
  Claim C6. \<^verbatim>\<open>isSupported()\<close> returns false while the capability registry is not populated;
  once it is populated the result is the boolean value of its \<open>menus\<close> flag, false when the
  host declared no such flag. The call leaves the whole state as it was: nothing is sent
  and no slot is written.
\<close>

theorem isSupported_reads_menus_flag:
  "(runtime s = None \<longrightarrow> fst (isSupported s) = Inr False) \<and>
   (runtime s = Some flags \<and> flags ''menus'' = Some b \<longrightarrow> fst (isSupported s) = Inr b) \<and>
   (runtime s = Some flags \<and> flags ''menus'' = None \<longrightarrow> fst (isSupported s) = Inr False) \<and>
   snd (isSupported s) = s"
  by (simp add: isSupported_def supports_menus_def returns_def)

theorem isSupported_reads_menus_flag_witness:
  "isSupported (module_load ()) = (Inr False, module_load ()) \<and>
   isSupported ((module_load ())\<lparr>runtime := Some [''menus'' \<mapsto> True]\<rparr>) =
     (Inr True, (module_load ())\<lparr>runtime := Some [''menus'' \<mapsto> True]\<rparr>) \<and>
   isSupported ((module_load ())\<lparr>runtime := Some [''menus'' \<mapsto> False]\<rparr>) =
     (Inr False, (module_load ())\<lparr>runtime := Some [''menus'' \<mapsto> False]\<rparr>) \<and>
   isSupported (ready ()) = (Inr False, ready ())"
  using
    isSupported_reads_menus_flag [of "module_load ()" undefined undefined]
    isSupported_reads_menus_flag [of "(module_load ())\<lparr>runtime := Some [''menus'' \<mapsto> True]\<rparr>"
      "[''menus'' \<mapsto> True]" True]
    isSupported_reads_menus_flag [of "(module_load ())\<lparr>runtime := Some [''menus'' \<mapsto> False]\<rparr>"
      "[''menus'' \<mapsto> False]" False]
    isSupported_reads_menus_flag [of "ready ()" Map.empty undefined]
  by (simp add: ready_def module_load_def prod_eq_iff)

end
